theory Spec2Isabelle
  imports Complex_Main
begin

section \<open>Configuration, positions and directions (utils.js)\<close>

text \<open>
  The global \<open>gameConfig\<close> object is read by every module. It is passed explicitly as a
  record, so that the functions below are stated for any board; \<open>gameConfig\<close> is the
  value the repository ships. \<open>board_rows\<close> and \<open>board_columns\<close> are the results of the
  getters \<open>height / cellSize\<close> and \<open>width / cellSize\<close> (600 / 20 = 30). JavaScript
  numbers that hold grid coordinates, scores and milliseconds are modelled as \<open>int\<close>.
\<close>

record config =
  board_columns :: int
  board_rows :: int
  snake_initialLength :: nat
  snake_speed :: int
  food_color :: string
  food_size :: int
  food_points :: int

definition gameConfig :: config where
  "gameConfig = \<lparr> board_columns = 600 div 20, board_rows = 600 div 20,
     snake_initialLength = 3, snake_speed = 150,
     food_color = ''#f39c12'', food_size = 18, food_points = 10 \<rparr>"

record position =
  x :: int
  y :: int

text \<open>\<open>DIRECTIONS\<close>: four constant objects, compared by identity.\<close>

datatype direction = UP | DOWN | LEFT | RIGHT

fun dir_x :: "direction \<Rightarrow> int" where
  "dir_x UP = 0"
| "dir_x DOWN = 0"
| "dir_x LEFT = - 1"
| "dir_x RIGHT = 1"

fun dir_y :: "direction \<Rightarrow> int" where
  "dir_y UP = - 1"
| "dir_y DOWN = 1"
| "dir_y LEFT = 0"
| "dir_y RIGHT = 0"

text \<open>\<open>createPosition\<close> applies \<open>Math.floor\<close>, the identity on integers.\<close>

definition createPosition :: "int \<Rightarrow> int \<Rightarrow> position" where
  "createPosition a b = \<lparr> x = a, y = b \<rparr>"

definition positionsEqual :: "position \<Rightarrow> position \<Rightarrow> bool" where
  "positionsEqual pos1 pos2 \<longleftrightarrow> x pos1 = x pos2 \<and> y pos1 = y pos2"

definition isValidPosition :: "config \<Rightarrow> position \<Rightarrow> bool" where
  "isValidPosition cfg p \<longleftrightarrow>
     x p \<ge> 0 \<and> x p < board_columns cfg \<and> y p \<ge> 0 \<and> y p < board_rows cfg"

text \<open>
  \<open>getRandomPosition\<close>: the two results of \<open>Math.random()\<close> are inputs, rationals in
  \<open>[0, 1)\<close>; the rounding of the floating-point product is not modelled.
\<close>

definition getRandomPosition :: "config \<Rightarrow> rat \<times> rat \<Rightarrow> position" where
  "getRandomPosition cfg r =
     createPosition \<lfloor>fst r * of_int (board_columns cfg)\<rfloor> \<lfloor>snd r * of_int (board_rows cfg)\<rfloor>"

text \<open>
  \<open>getOppositeDirection\<close> ends in \<open>return direction\<close> for an object that is none of the
  four constants; no caller passes one, and the datatype has no such value.
\<close>

fun getOppositeDirection :: "direction \<Rightarrow> direction" where
  "getOppositeDirection UP = DOWN"
| "getOppositeDirection DOWN = UP"
| "getOppositeDirection LEFT = RIGHT"
| "getOppositeDirection RIGHT = LEFT"

definition areDirectionsOpposite :: "direction \<Rightarrow> direction \<Rightarrow> bool" where
  "areDirectionsOpposite dir1 dir2 \<longleftrightarrow> getOppositeDirection dir1 = dir2"

section \<open>The snake (snake.js)\<close>

text \<open>The field \<open>length\<close> of the class is \<open>slength\<close> here.\<close>

record snake =
  body :: "position list"
  direction :: direction
  nextDirection :: direction
  growing :: bool
  slength :: int

datatype error = TypeError

text \<open>\<open>reset\<close>: segments \<open>(startX - i, startY)\<close> for \<open>i = 0, ..., initialLength - 1\<close>.\<close>

definition reset :: "config \<Rightarrow> snake" where
  "reset cfg =
     (let startX = board_columns cfg div 2; startY = board_rows cfg div 2
      in \<lparr> body = map (\<lambda>i. createPosition (startX - int i) startY) [0 ..< snake_initialLength cfg],
           direction = RIGHT, nextDirection = RIGHT, growing = False,
           slength = int (snake_initialLength cfg) \<rparr>)"

text \<open>\<open>getHead\<close> is \<open>body[0]\<close>: \<open>undefined\<close> on an empty body.\<close>

definition getHead :: "snake \<Rightarrow> position option" where
  "getHead s = (case body s of [] \<Rightarrow> None | h # _ \<Rightarrow> Some h)"

definition changeDirection :: "direction \<Rightarrow> snake \<Rightarrow> bool \<times> snake" where
  "changeDirection newDirection s =
     (if areDirectionsOpposite newDirection (direction s) then (False, s)
      else (True, s\<lparr> nextDirection := newDirection \<rparr>))"

text \<open>
  \<open>move\<close>: reading \<open>head.x\<close> of an undefined head raises a TypeError, after the direction
  was assigned; the exception leaves the method, so the model returns the error.
  \<open>unshift\<close> prepends, \<open>pop\<close> removes the last element.
\<close>

definition move :: "snake \<Rightarrow> error + snake" where
  "move s =
     (let s1 = s\<lparr> direction := nextDirection s \<rparr> in
      case getHead s1 of
        None \<Rightarrow> Inl TypeError
      | Some head \<Rightarrow>
          (let newHead = createPosition (x head + dir_x (direction s1)) (y head + dir_y (direction s1));
               s2 = s1\<lparr> body := newHead # body s1 \<rparr>
           in if \<not> growing s2 then Inr (s2\<lparr> body := butlast (body s2) \<rparr>)
              else Inr (s2\<lparr> growing := False, slength := slength s2 + 1 \<rparr>)))"

definition grow :: "snake \<Rightarrow> snake" where
  "grow s = s\<lparr> growing := True \<rparr>"

definition isPositionOccupied :: "snake \<Rightarrow> position \<Rightarrow> bool" where
  "isPositionOccupied s p \<longleftrightarrow> list_ex (\<lambda>segment. positionsEqual segment p) (body s)"

definition getBodyWithoutHead :: "snake \<Rightarrow> position list" where
  "getBodyWithoutHead s = tl (body s)"

definition getNextHeadPosition :: "snake \<Rightarrow> position option" where
  "getNextHeadPosition s =
     (case getHead s of
        None \<Rightarrow> None
      | Some head \<Rightarrow> Some (createPosition (x head + dir_x (direction s)) (y head + dir_y (direction s))))"

section \<open>The food (food.js)\<close>

text \<open>
  The fields \<open>type\<close> and \<open>size\<close> of the class are \<open>ftype\<close> and \<open>fsize\<close> here. Types are the
  strings of the source. \<open>specialFood\<close> is \<open>null\<close> or the effect object
  \<open>{ type: 'speed', duration: 5000 }\<close>.
\<close>

record special_effect =
  effect_type :: string
  duration :: int

record food =
  position :: "position option"
  "value" :: int
  active :: bool
  ftype :: string
  color :: string
  fsize :: int
  spawnTime :: int
  specialFood :: "special_effect option"

definition newFood :: "config \<Rightarrow> food" where
  "newFood cfg = \<lparr> position = None, value = food_points cfg, active = False,
     ftype = ''normal'', color = food_color cfg, fsize = food_size cfg,
     spawnTime = 0, specialFood = None \<rparr>"

definition resetToNormal :: "config \<Rightarrow> food \<Rightarrow> food" where
  "resetToNormal cfg f = f\<lparr> ftype := ''normal'', value := food_points cfg,
     color := food_color cfg, fsize := food_size cfg, specialFood := None \<rparr>"

text \<open>The assignments both placement paths make on a free cell.\<close>

definition placeAt :: "config \<Rightarrow> int \<Rightarrow> position \<Rightarrow> food \<Rightarrow> food" where
  "placeAt cfg now p f = resetToNormal cfg (f\<lparr> position := Some p, active := True, spawnTime := now \<rparr>)"

text \<open>
  The cells in the order of the nested loops of \<open>findAvailablePosition\<close>: \<open>y\<close> outside,
  \<open>x\<close> inside. The first free one is taken; with none, the food is left as it was.
\<close>

definition boardCells :: "config \<Rightarrow> position list" where
  "boardCells cfg =
     concat (map (\<lambda>b. map (\<lambda>a. createPosition a b) [0 .. board_columns cfg - 1])
                 [0 .. board_rows cfg - 1])"

definition findAvailablePosition :: "config \<Rightarrow> int \<Rightarrow> snake \<Rightarrow> food \<Rightarrow> bool \<times> food" where
  "findAvailablePosition cfg now s f =
     (case find (\<lambda>testPosition. \<not> isPositionOccupied s testPosition) (boardCells cfg) of
        Some testPosition \<Rightarrow> (True, placeAt cfg now testPosition f)
      | None \<Rightarrow> (False, f))"

definition maxAttempts :: nat where
  "maxAttempts = 100"

text \<open>
  The \<open>while\<close> loop of \<open>generateNewPosition\<close>; \<open>rnd attempts\<close> is the pair of random
  numbers drawn in iteration \<open>attempts\<close>, \<open>now\<close> the value of \<open>Date.now()\<close>.
\<close>

function generateLoop ::
  "config \<Rightarrow> int \<Rightarrow> (nat \<Rightarrow> rat \<times> rat) \<Rightarrow> snake \<Rightarrow> food \<Rightarrow> nat \<Rightarrow> bool \<times> food" where
  "generateLoop cfg now rnd s f attempts =
     (if attempts < maxAttempts then
        (if \<not> isPositionOccupied s (getRandomPosition cfg (rnd attempts))
         then (True, placeAt cfg now (getRandomPosition cfg (rnd attempts)) f)
         else generateLoop cfg now rnd s f (attempts + 1))
      else findAvailablePosition cfg now s f)"
  by pat_completeness auto
termination
  by (relation "measure (\<lambda>(cfg, now, rnd, s, f, attempts). maxAttempts - attempts)") auto

definition generateNewPosition ::
  "config \<Rightarrow> int \<Rightarrow> (nat \<Rightarrow> rat \<times> rat) \<Rightarrow> snake \<Rightarrow> food \<Rightarrow> bool \<times> food" where
  "generateNewPosition cfg now rnd s f = generateLoop cfg now rnd s f 0"

definition isEaten :: "food \<Rightarrow> position \<Rightarrow> bool" where
  "isEaten f snakeHead =
     (case position f of
        None \<Rightarrow> False
      | Some p \<Rightarrow> if \<not> active f then False else positionsEqual p snakeHead)"

definition consume :: "food \<Rightarrow> int \<times> food" where
  "consume f =
     (if \<not> active f then (0, f)
      else (value f, f\<lparr> active := False, position := None \<rparr>))"

text \<open>
  \<open>makeSpecial\<close> assigns the type, then switches on it; any string other than the three
  special ones takes the \<open>default\<close> branch.
\<close>

definition makeSpecial :: "config \<Rightarrow> string \<Rightarrow> food \<Rightarrow> food" where
  "makeSpecial cfg specialType f =
     (let f1 = f\<lparr> ftype := specialType \<rparr> in
      if specialType = ''bonus'' then
        f1\<lparr> value := food_points cfg * 2, color := ''#e74c3c'', fsize := food_size cfg + 2 \<rparr>
      else if specialType = ''mega'' then
        f1\<lparr> value := food_points cfg * 5, color := ''#9b59b6'', fsize := food_size cfg + 4 \<rparr>
      else if specialType = ''speed'' then
        f1\<lparr> value := food_points cfg, color := ''#3498db'', fsize := food_size cfg,
            specialFood := Some \<lparr> effect_type = ''speed'', duration = 5000 \<rparr> \<rparr>
      else resetToNormal cfg f1)"

definition specialTypes :: "string list" where
  "specialTypes = [''bonus'', ''mega'', ''speed'']"

text \<open>
  \<open>checkForSpecialFood\<close>: \<open>r1\<close> and \<open>r2\<close> are the two results of \<open>Math.random()\<close>. An
  index outside the array reads \<open>undefined\<close>, for which \<open>makeSpecial\<close> takes its default
  parameter \<open>'bonus'\<close>. The chance and the random numbers are doubles in the source and
  exact rationals here: the rounding of the sum and of the products is not modelled.
\<close>

definition specialChance :: "int \<Rightarrow> rat" where
  "specialChance currentScore = min (1 / 10 + (of_int currentScore / 1000) * (1 / 20)) (3 / 10)"

definition checkForSpecialFood :: "config \<Rightarrow> rat \<Rightarrow> rat \<Rightarrow> int \<Rightarrow> food \<Rightarrow> bool \<times> food" where
  "checkForSpecialFood cfg r1 r2 currentScore f =
     (if ftype f \<noteq> ''normal'' then (False, f)
      else if r1 < specialChance currentScore then
        (let i = \<lfloor>r2 * of_nat (length specialTypes)\<rfloor>;
             randomType = (if 0 \<le> i \<and> i < int (length specialTypes)
                           then specialTypes ! nat i else ''bonus'')
         in (True, makeSpecial cfg randomType f))
      else (False, f))"

definition getAge :: "int \<Rightarrow> food \<Rightarrow> int" where
  "getAge now f = (if \<not> active f \<or> spawnTime f = 0 then 0 else now - spawnTime f)"

definition hasExpired :: "int \<Rightarrow> food \<Rightarrow> bool" where
  "hasExpired now f = (if ftype f = ''normal'' then False else getAge now f > 10000)"

text \<open>\<open>Food.update\<close>.\<close>

definition updateFood :: "config \<Rightarrow> int \<Rightarrow> rat \<Rightarrow> rat \<Rightarrow> int \<Rightarrow> food \<Rightarrow> food" where
  "updateFood cfg now r1 r2 currentScore f =
     (if \<not> active f then f
      else snd (checkForSpecialFood cfg r1 r2 currentScore
                  (if hasExpired now f then resetToNormal cfg f else f)))"

section \<open>The collision detector (collision.js)\<close>

text \<open>
  The result objects share \<open>detected\<close>, \<open>type\<close> and \<open>position\<close>. With \<open>debugMode\<close> set, a
  detected collision is appended to the detector's history, which no result depends on;
  the history is not modelled.
\<close>

record collision =
  detected :: bool
  ctype :: string
  cposition :: position

record boundary_collision = collision +
  side :: "string option"

record self_collision = collision +
  segmentIndex :: int

record food_collision = collision +
  foodPosition :: "position option"
  foodType :: string
  points :: int
  specialEffect :: "special_effect option"

definition checkBoundaryCollision :: "config \<Rightarrow> position \<Rightarrow> boundary_collision" where
  "checkBoundaryCollision cfg p =
     (let c = \<lparr> detected = False, ctype = ''boundary'', cposition = p, side = None \<rparr> in
      if x p < 0 then c\<lparr> detected := True, side := Some ''left'' \<rparr>
      else if x p \<ge> board_columns cfg then c\<lparr> detected := True, side := Some ''right'' \<rparr>
      else if y p < 0 then c\<lparr> detected := True, side := Some ''top'' \<rparr>
      else if y p \<ge> board_rows cfg then c\<lparr> detected := True, side := Some ''bottom'' \<rparr>
      else c)"

text \<open>
  The loop of \<open>checkSelfCollision\<close> over the body without its head, from index \<open>i\<close>.
  The self and food checks take the head that \<open>snake.getHead()\<close> returned as an argument.
\<close>

fun selfLoop :: "position \<Rightarrow> position list \<Rightarrow> nat \<Rightarrow> self_collision \<Rightarrow> self_collision" where
  "selfLoop head [] i c = c"
| "selfLoop head (b # bs) i c =
     (if positionsEqual head b then c\<lparr> detected := True, segmentIndex := int i + 1 \<rparr>
      else selfLoop head bs (i + 1) c)"

definition checkSelfCollision :: "snake \<Rightarrow> position \<Rightarrow> self_collision" where
  "checkSelfCollision s head =
     selfLoop head (getBodyWithoutHead s) 0
       \<lparr> detected = False, ctype = ''self'', cposition = head, segmentIndex = - 1 \<rparr>"

definition checkFoodCollision :: "snake \<Rightarrow> position \<Rightarrow> food \<Rightarrow> food_collision" where
  "checkFoodCollision s head f =
     (let c = \<lparr> detected = False, ctype = ''food'', cposition = head,
                foodPosition = position f, foodType = ftype f, points = 0, specialEffect = None \<rparr>
      in if active f \<and> isEaten f head
         then c\<lparr> detected := True, points := value f, specialEffect := specialFood f \<rparr>
         else c)"

record all_collisions =
  c_boundary :: boundary_collision
  c_self :: self_collision
  c_food :: food_collision
  hasAnyCollision :: bool
  gameEnding :: bool

text \<open>
  \<open>checkAllCollisions\<close> reads \<open>snake.getHead()\<close> for every check; on an empty body the
  boundary check reads \<open>x\<close> of \<open>undefined\<close> and raises.
\<close>

definition checkAllCollisions :: "config \<Rightarrow> snake \<Rightarrow> food \<Rightarrow> error + all_collisions" where
  "checkAllCollisions cfg s f =
     (case getHead s of
        None \<Rightarrow> Inl TypeError
      | Some head \<Rightarrow>
          (let b = checkBoundaryCollision cfg head;
               sc = checkSelfCollision s head;
               fc = checkFoodCollision s head f
           in Inr \<lparr> c_boundary = b, c_self = sc, c_food = fc,
                    hasAnyCollision = (detected b \<or> detected sc \<or> detected fc),
                    gameEnding = (detected b \<or> detected sc) \<rparr>))"

section \<open>The game engine (game.js)\<close>

text \<open>
  What a handler reads from its host is passed in: \<open>now\<close> is \<open>Date.now()\<close> (one value for
  the whole handler), \<open>draws\<close> the random pairs of the placement attempts, \<open>specialRoll\<close>
  and \<open>typeRoll\<close> the two random numbers of the upgrade check.
\<close>

record env =
  now :: int
  draws :: "nat \<Rightarrow> rat \<times> rat"
  specialRoll :: rat
  typeRoll :: rat

datatype game_state = MENU | PLAYING | PAUSED | GAME_OVER

text \<open>
  A pending \<open>setTimeout\<close> callback of \<open>handleSpecialEffect\<close>: the time it is due and the
  \<open>originalSpeed\<close> its closure captured.
\<close>

record timeout =
  due :: int
  originalSpeed :: int

text \<open>
  The fields of the class that hold simulation state. \<open>gameLoopId\<close> is true while a frame
  callback is requested and not cancelled; \<open>timeouts\<close> are the pending speed reversions
  in the order they were scheduled; \<open>storedHighScore\<close> is the localStorage entry. The
  DOM elements, the overlay and the renderer are not modelled.
\<close>

record game =
  snake :: snake
  food :: food
  score :: int
  highScore :: int
  state :: game_state
  lastUpdateTime :: int
  gameLoopId :: bool
  speed :: int
  paused :: bool
  gameStartTime :: int
  gameEndTime :: int
  timeouts :: "timeout list"
  storedHighScore :: "int option"

definition getHighScore :: "game \<Rightarrow> int" where
  "getHighScore g = (case storedHighScore g of None \<Rightarrow> 0 | Some saved \<Rightarrow> saved)"

definition setHighScore :: "int \<Rightarrow> game \<Rightarrow> bool \<times> game" where
  "setHighScore sc g =
     (if sc > getHighScore g then (True, g\<lparr> storedHighScore := Some sc \<rparr>) else (False, g))"

text \<open>The constructor with \<open>initialize\<close> and \<open>showMenu\<close>.\<close>

definition newGame :: "config \<Rightarrow> int option \<Rightarrow> game" where
  "newGame cfg stored =
     \<lparr> snake = reset cfg, food = newFood cfg, score = 0,
       highScore = (case stored of None \<Rightarrow> 0 | Some saved \<Rightarrow> saved),
       state = MENU, lastUpdateTime = 0, gameLoopId = False, speed = snake_speed cfg,
       paused = False, gameStartTime = 0, gameEndTime = 0, timeouts = [],
       storedHighScore = stored \<rparr>"

definition stopGameLoop :: "game \<Rightarrow> game" where
  "stopGameLoop g = (if gameLoopId g then g\<lparr> gameLoopId := False \<rparr> else g)"

definition gameOver :: "env \<Rightarrow> game \<Rightarrow> game" where
  "gameOver e g =
     (let g1 = stopGameLoop (g\<lparr> state := GAME_OVER, gameEndTime := now e \<rparr>);
          r = setHighScore (score g1) g1
      in if fst r then (snd r)\<lparr> highScore := score g1 \<rparr> else snd r)"

definition resetGame :: "config \<Rightarrow> game \<Rightarrow> game" where
  "resetGame cfg g =
     g\<lparr> snake := reset cfg, food := (food g)\<lparr> active := False \<rparr>, score := 0,
        speed := snake_speed cfg, paused := False, lastUpdateTime := 0 \<rparr>"

text \<open>
  \<open>handleSpecialEffect\<close>: the only case of the switch is \<open>'speed'\<close>. The callback is
  recorded with the speed it will restore.
\<close>

definition handleSpecialEffect :: "env \<Rightarrow> special_effect \<Rightarrow> game \<Rightarrow> game" where
  "handleSpecialEffect e effect g =
     (if effect_type effect = ''speed'' then
        g\<lparr> speed := max 50 (speed g - 50),
           timeouts := timeouts g @ [\<lparr> due = now e + duration effect, originalSpeed = speed g \<rparr>] \<rparr>
      else g)"

definition updateGameSpeed :: "config \<Rightarrow> game \<Rightarrow> game" where
  "updateGameSpeed cfg g =
     (let speedReduction = (score g div 100) * 5
      in g\<lparr> speed := max 75 (snake_speed cfg - speedReduction) \<rparr>)"

definition handleFoodCollision :: "config \<Rightarrow> env \<Rightarrow> food_collision \<Rightarrow> game \<Rightarrow> game" where
  "handleFoodCollision cfg e foodCollision g =
     (let consumed = consume (food g);
          g1 = g\<lparr> food := snd consumed, score := score g + fst consumed \<rparr>;
          g2 = g1\<lparr> snake := grow (snake g1) \<rparr>;
          g3 = g2\<lparr> food := snd (generateNewPosition cfg (now e) (draws e) (snake g2) (food g2)) \<rparr>
      in case specialEffect foodCollision of
           None \<Rightarrow> g3
         | Some effect \<Rightarrow> handleSpecialEffect e effect g3)"

text \<open>\<open>Game.update\<close>, one tick.\<close>

definition update :: "config \<Rightarrow> env \<Rightarrow> game \<Rightarrow> error + game" where
  "update cfg e g =
     (if state g \<noteq> PLAYING \<or> paused g then Inr g
      else case move (snake g) of
        Inl err \<Rightarrow> Inl err
      | Inr s1 \<Rightarrow>
          (let g1 = g\<lparr> snake := s1 \<rparr> in
           case checkAllCollisions cfg (snake g1) (food g1) of
             Inl err \<Rightarrow> Inl err
           | Inr collisions \<Rightarrow>
               (let g2 = (if detected (c_food collisions)
                          then handleFoodCollision cfg e (c_food collisions) g1 else g1)
                in if gameEnding collisions then Inr (gameOver e g2)
                   else Inr (updateGameSpeed cfg
                          (g2\<lparr> food := updateFood cfg (now e) (specialRoll e) (typeRoll e)
                                          (score g2) (food g2) \<rparr>)))))"

text \<open>
  The classification a tick computes: \<open>update\<close> moves the snake and checks the moved
  snake against the food as it lies before the tick.
\<close>

definition tickCollisions :: "config \<Rightarrow> game \<Rightarrow> error + all_collisions" where
  "tickCollisions cfg g =
     (case move (snake g) of
        Inl err \<Rightarrow> Inl err
      | Inr s1 \<Rightarrow> checkAllCollisions cfg s1 (food g))"

text \<open>
  \<open>gameLoop\<close>, the frame callback: a tick when the interval has elapsed, then the next
  frame is requested while the game is playing.
\<close>

definition gameLoop :: "config \<Rightarrow> env \<Rightarrow> game \<Rightarrow> error + game" where
  "gameLoop cfg e g =
     (let currentTime = now e in
      case (if currentTime - lastUpdateTime g \<ge> speed g
            then (case update cfg e g of
                    Inl err \<Rightarrow> Inl err
                  | Inr g1 \<Rightarrow> Inr (g1\<lparr> lastUpdateTime := currentTime \<rparr>))
            else Inr g) of
        Inl err \<Rightarrow> Inl err
      | Inr g2 \<Rightarrow>
          if state g2 = PLAYING \<and> \<not> paused g2 then Inr (g2\<lparr> gameLoopId := True \<rparr>) else Inr g2)"

definition startGameLoop :: "config \<Rightarrow> env \<Rightarrow> game \<Rightarrow> error + game" where
  "startGameLoop cfg e g =
     gameLoop cfg e ((if gameLoopId g then stopGameLoop g else g)\<lparr> lastUpdateTime := now e \<rparr>)"

definition start :: "config \<Rightarrow> env \<Rightarrow> game \<Rightarrow> error + game" where
  "start cfg e g =
     (case startGameLoop cfg e ((resetGame cfg g)\<lparr> state := PLAYING, gameStartTime := now e \<rparr>) of
        Inl err \<Rightarrow> Inl err
      | Inr g1 \<Rightarrow>
          Inr (g1\<lparr> food := snd (generateNewPosition cfg (now e) (draws e) (snake g1) (food g1)) \<rparr>))"

definition pause :: "game \<Rightarrow> game" where
  "pause g =
     (if state g \<noteq> PLAYING then g
      else stopGameLoop (g\<lparr> state := PAUSED, paused := True \<rparr>))"

definition resume :: "config \<Rightarrow> env \<Rightarrow> game \<Rightarrow> error + game" where
  "resume cfg e g =
     (if state g \<noteq> PAUSED then Inr g
      else startGameLoop cfg e (g\<lparr> state := PLAYING, paused := False \<rparr>))"

definition togglePause :: "config \<Rightarrow> env \<Rightarrow> game \<Rightarrow> error + game" where
  "togglePause cfg e g =
     (if state g = PLAYING then Inr (pause g)
      else if state g = PAUSED then resume cfg e g
      else Inr g)"

definition restart :: "config \<Rightarrow> env \<Rightarrow> game \<Rightarrow> error + game" where
  "restart cfg e g = start cfg e (stopGameLoop g)"

text \<open>\<open>Game.changeDirection\<close>.\<close>

definition game_changeDirection :: "direction \<Rightarrow> game \<Rightarrow> game" where
  "game_changeDirection d g =
     (if state g = PLAYING \<and> \<not> paused g
      then g\<lparr> snake := snd (changeDirection d (snake g)) \<rparr> else g)"

text \<open>
  The host runs a pending callback once its delay has passed: it assigns the captured
  speed. Every effect the food creates lasts 5000 ms, so the oldest callback is the first
  one due.
\<close>

definition fireTimeout :: "env \<Rightarrow> game \<Rightarrow> game" where
  "fireTimeout e g =
     (case timeouts g of
        [] \<Rightarrow> g
      | t # ts \<Rightarrow> if due t \<le> now e then g\<lparr> speed := originalSpeed t, timeouts := ts \<rparr> else g)"

text \<open>
  What the host can make the game do: the controls of the input handler, a frame
  callback (only while one is requested) and a timer callback. \<open>run\<close> applies a list of
  events, each with its inputs, and stops at the first exception.
\<close>

datatype event = Start | TogglePause | Pause | Resume | Restart | ChangeDirection direction
  | Frame | Timeout

definition step :: "config \<Rightarrow> event \<Rightarrow> env \<Rightarrow> game \<Rightarrow> error + game" where
  "step cfg ev e g =
     (case ev of
        Start \<Rightarrow> start cfg e g
      | TogglePause \<Rightarrow> togglePause cfg e g
      | Pause \<Rightarrow> Inr (pause g)
      | Resume \<Rightarrow> resume cfg e g
      | Restart \<Rightarrow> restart cfg e g
      | ChangeDirection d \<Rightarrow> Inr (game_changeDirection d g)
      | Frame \<Rightarrow> (if gameLoopId g then gameLoop cfg e g else Inr g)
      | Timeout \<Rightarrow> Inr (fireTimeout e g))"

fun run :: "config \<Rightarrow> (event \<times> env) list \<Rightarrow> game \<Rightarrow> error + game" where
  "run cfg [] g = Inr g"
| "run cfg ((ev, e) # evs) g =
     (case step cfg ev e g of Inl err \<Rightarrow> Inl err | Inr g1 \<Rightarrow> run cfg evs g1)"

section \<open>Example inputs\<close>




definition zeroDraws :: "nat \<Rightarrow> rat \<times> rat" where
  "zeroDraws = (\<lambda>i. (0, 0))"

text \<open>A bonus food, and draws that always hit the cell \<open>(15, 15)\<close> of the shipped board.\<close>

definition bonusFood :: food where
  "bonusFood = makeSpecial gameConfig ''bonus'' (newFood gameConfig)"

definition centreDraws :: "nat \<Rightarrow> rat \<times> rat" where
  "centreDraws = (\<lambda>i. (1 / 2, 1 / 2))"

text \<open>
  A running game with 90 points and the interval 150 of that score, a snake of twelve
  segments heading right along row 15, and a speed food on the cell ahead. The player
  lets one tick pass at time 6000, pauses, and the reversion timer fires at 11000.
\<close>

definition boostGame :: game where
  "boostGame = (newGame gameConfig None)\<lparr>
     snake := (reset gameConfig)\<lparr> body := map (\<lambda>i. createPosition (15 - int i) 15) [0 ..< 12],
                                    slength := 12 \<rparr>,
     food := makeSpecial gameConfig ''speed''
               (placeAt gameConfig 5000 \<lparr>x = 16, y = 15\<rparr> (newFood gameConfig)),
     score := 90, state := PLAYING, gameLoopId := True, lastUpdateTime := 5850 \<rparr>"

definition boostRun :: "(event \<times> env) list" where
  "boostRun =
     [(Frame, \<lparr> now = 6000, draws = zeroDraws, specialRoll = 1 / 2, typeRoll = 0 \<rparr>),
      (Pause, \<lparr> now = 6100, draws = zeroDraws, specialRoll = 1 / 2, typeRoll = 0 \<rparr>),
      (Timeout, \<lparr> now = 11000, draws = zeroDraws, specialRoll = 1 / 2, typeRoll = 0 \<rparr>)]"

text \<open>
  The invariant of a session: unless the game is over, no two segments of the snake
  share a cell.
\<close>

definition aliveDistinct :: "game \<Rightarrow> bool" where
  "aliveDistinct g \<longleftrightarrow> (state g \<noteq> GAME_OVER \<longrightarrow> distinct (body (snake g)))"

text \<open>
  A session on the shipped board: the first food is drawn at \<open>(16, 15)\<close> and eaten, the
  second at \<open>(17, 15)\<close> and eaten, the third at \<open>(0, 0)\<close>; the snake, now five segments
  long, turns down, left and up into its own body.
\<close>

definition envAt :: "int \<Rightarrow> rat \<times> rat \<Rightarrow> env" where
  "envAt t r = \<lparr> now = t, draws = (\<lambda>i. r), specialRoll = 1 / 2, typeRoll = 0 \<rparr>"

definition coilRun :: "(event \<times> env) list" where
  "coilRun =
     [(Start, envAt 0 (8 / 15, 1 / 2)),
      (Frame, envAt 150 (17 / 30, 1 / 2)),
      (Frame, envAt 300 (0, 0)),
      (Frame, envAt 450 (0, 0)),
      (ChangeDirection DOWN, envAt 500 (0, 0)),
      (Frame, envAt 600 (0, 0)),
      (ChangeDirection LEFT, envAt 650 (0, 0)),
      (Frame, envAt 750 (0, 0)),
      (ChangeDirection UP, envAt 800 (0, 0)),
      (Frame, envAt 900 (0, 0))]"



section \<open>Properties of the snake\<close>

lemma positionsEqual_iff: "positionsEqual p q \<longleftrightarrow> p = q"
  by (cases p, cases q) (simp add: positionsEqual_def)


text \<open>
  C4. \<open>changeDirection d\<close> fails, and leaves the snake as it was (queued direction
  included), exactly when \<open>d\<close> is the opposite of the applied direction \<open>direction s\<close>,
  whatever direction is queued; otherwise it succeeds and queues \<open>d\<close>. A second successful
  call before the next move replaces the queued direction of the first.
\<close>

theorem changeDirection_contract:
  "(\<not> fst (changeDirection d s) \<longleftrightarrow>
      (d, direction s) \<in> {(UP, DOWN), (DOWN, UP), (LEFT, RIGHT), (RIGHT, LEFT)})
   \<and> changeDirection d s =
       (if (d, direction s) \<in> {(UP, DOWN), (DOWN, UP), (LEFT, RIGHT), (RIGHT, LEFT)}
        then (False, s) else (True, s\<lparr> nextDirection := d \<rparr>))
   \<and> (fst (changeDirection d s) \<and> fst (changeDirection d' (snd (changeDirection d s)))
        \<longrightarrow> snd (changeDirection d' (snd (changeDirection d s))) = s\<lparr> nextDirection := d' \<rparr>)"
  by (cases d; cases "direction s")
     (simp_all add: changeDirection_def areDirectionsOpposite_def)

theorem changeDirection_contract_witness:
  "fst (changeDirection UP (reset gameConfig))
   \<and> fst (changeDirection DOWN (snd (changeDirection UP (reset gameConfig))))
   \<and> snd (changeDirection DOWN (snd (changeDirection UP (reset gameConfig))))
        = (reset gameConfig)\<lparr> nextDirection := DOWN \<rparr>
   \<and> changeDirection LEFT (snd (changeDirection UP (reset gameConfig)))
        = (False, snd (changeDirection UP (reset gameConfig)))"
proof -
  let ?s = "reset gameConfig"
  have a: "fst (changeDirection UP ?s)"
    by (simp add: changeDirection_def areDirectionsOpposite_def reset_def Let_def)
  have b: "fst (changeDirection DOWN (snd (changeDirection UP ?s)))"
    by (simp add: changeDirection_def areDirectionsOpposite_def reset_def Let_def)
  have c: "changeDirection LEFT (snd (changeDirection UP ?s)) = (False, snd (changeDirection UP ?s))"
    by (simp add: changeDirection_def areDirectionsOpposite_def reset_def Let_def)
  from changeDirection_contract [of UP ?s DOWN] a b
  have "snd (changeDirection DOWN (snd (changeDirection UP ?s))) = ?s\<lparr> nextDirection := DOWN \<rparr>"
    by blast
  with a b c show ?thesis by blast
qed

text \<open>
  C5. A move of a snake with a non-empty body returns; the new head is the old head plus
  the unit vector of the direction that was queued (now the applied one), and the body
  is as long as before when no growth is pending and one longer when growth is pending.
\<close>

theorem move_head_and_length:
  assumes "body s \<noteq> []"
  shows "\<exists>s'. move s = Inr s'
           \<and> direction s' = nextDirection s
           \<and> body s' \<noteq> []
           \<and> x (hd (body s')) = x (hd (body s)) + dir_x (direction s')
           \<and> y (hd (body s')) = y (hd (body s)) + dir_y (direction s')
           \<and> (dir_x (direction s'), dir_y (direction s')) \<in> {(0, - 1), (0, 1), (- 1, 0), (1, 0)}
           \<and> length (body s') = length (body s) + (if growing s then 1 else 0)"
proof -
  from assms obtain h t where ht: "body s = h # t" by (cases "body s") auto
  show ?thesis
    by (cases "nextDirection s")
       (simp_all add: move_def getHead_def ht createPosition_def Let_def)
qed

theorem move_head_and_length_witness:
  "\<exists>s'. move (reset gameConfig) = Inr s'
      \<and> hd (body s') = \<lparr> x = 16, y = 15 \<rparr> \<and> length (body s') = 3"
proof -
  have ne: "body (reset gameConfig) \<noteq> []"
    by (simp add: reset_def gameConfig_def Let_def upt_conv_Cons)
  have b: "body (reset gameConfig) = [\<lparr>x = 15, y = 15\<rparr>, \<lparr>x = 14, y = 15\<rparr>, \<lparr>x = 13, y = 15\<rparr>]"
    by (simp add: reset_def gameConfig_def Let_def createPosition_def eval_nat_numeral upt_conv_Cons)
  have g: "\<not> growing (reset gameConfig)" "nextDirection (reset gameConfig) = RIGHT"
    by (simp_all add: reset_def Let_def)
  from move_head_and_length [OF ne] obtain s' where
    s': "move (reset gameConfig) = Inr s'" "direction s' = nextDirection (reset gameConfig)"
        "body s' \<noteq> []"
        "x (hd (body s')) = x (hd (body (reset gameConfig))) + dir_x (direction s')"
        "y (hd (body s')) = y (hd (body (reset gameConfig))) + dir_y (direction s')"
        "length (body s') = length (body (reset gameConfig)) + (if growing (reset gameConfig) then 1 else 0)"
    by blast
  from s' b g have "hd (body s') = \<lparr> x = 16, y = 15 \<rparr>" "length (body s') = 3"
    by simp_all
  with s'(1) show ?thesis by blast
qed

text \<open>
  C7. \<open>grow\<close> only sets a flag: called any number of times \<open>n \<ge> 1\<close> before one move, it
  leaves the same snake as one call, and that move lengthens the body by exactly one.
\<close>

theorem grow_idempotent_one_step:
  assumes "body s \<noteq> []" and "1 \<le> n"
  shows "(grow ^^ n) s = grow s
         \<and> (\<exists>s'. move ((grow ^^ n) s) = Inr s' \<and> length (body s') = length (body s) + 1
                 \<and> \<not> growing s')"
proof -
  have idem: "grow (grow t) = grow t" for t
    by (simp add: grow_def)
  have pow: "(grow ^^ Suc k) s = grow s" for k
    by (induction k) (simp_all add: idem)
  from assms(2) obtain k where "n = Suc k" by (cases n) auto
  with pow have eq: "(grow ^^ n) s = grow s" by simp
  from assms(1) obtain h t where ht: "body s = h # t" by (cases "body s") auto
  have "\<exists>s'. move (grow s) = Inr s' \<and> length (body s') = length (body s) + 1 \<and> \<not> growing s'"
    by (simp add: move_def grow_def getHead_def ht Let_def)
  with eq show ?thesis by simp
qed

theorem grow_idempotent_one_step_witness:
  "(grow ^^ 2) (reset gameConfig) = grow (reset gameConfig)
   \<and> (\<exists>s'. move ((grow ^^ 2) (reset gameConfig)) = Inr s' \<and> length (body s') = 4)"
proof -
  have ne: "body (reset gameConfig) \<noteq> []"
    by (simp add: reset_def gameConfig_def Let_def upt_conv_Cons)
  have len: "length (body (reset gameConfig)) = 3"
    by (simp add: reset_def gameConfig_def Let_def)
  from grow_idempotent_one_step [OF ne, of 2] len show ?thesis
    by auto
qed

section \<open>Properties of the collision detector\<close>

text \<open>
  C8. The boundary check reports a collision exactly for the positions outside
  \<open>[0, columns) \<times> [0, rows)\<close>; a head at \<open>x = columns\<close> collides, a head at
  \<open>x = columns - 1\<close> on the board (with \<open>y\<close> in range) does not.
\<close>

theorem boundary_classifier:
  "(detected (checkBoundaryCollision cfg p) \<longleftrightarrow>
      \<not> (0 \<le> x p \<and> x p < board_columns cfg \<and> 0 \<le> y p \<and> y p < board_rows cfg))
   \<and> (x p = board_columns cfg \<longrightarrow> detected (checkBoundaryCollision cfg p))
   \<and> (x p = board_columns cfg - 1 \<and> 0 \<le> x p \<and> 0 \<le> y p \<and> y p < board_rows cfg
        \<longrightarrow> \<not> detected (checkBoundaryCollision cfg p))"
  by (simp add: checkBoundaryCollision_def Let_def)

theorem boundary_classifier_witness:
  "detected (checkBoundaryCollision gameConfig \<lparr> x = 30, y = 7 \<rparr>)
   \<and> \<not> detected (checkBoundaryCollision gameConfig \<lparr> x = 29, y = 7 \<rparr>)"
  using boundary_classifier [of gameConfig "\<lparr> x = 30, y = 7 \<rparr>"]
        boundary_classifier [of gameConfig "\<lparr> x = 29, y = 7 \<rparr>"]
  by (simp add: gameConfig_def)

section \<open>Properties of the game engine\<close>

text \<open>
  C9. \<open>pause\<close> in a state other than PLAYING and \<open>resume\<close> in a state other than PAUSED
  return the game as it was, without an exception. In PLAYING, \<open>pause\<close> leads to PAUSED
  and in PAUSED, \<open>resume\<close> leads to PLAYING (for a positive tick interval, so that no
  tick is due at once), score, snake and food untouched.
\<close>

theorem pause_resume_noop:
  "(state g \<noteq> PLAYING \<longrightarrow> pause g = g)
   \<and> (state g \<noteq> PAUSED \<longrightarrow> resume cfg e g = Inr g)
   \<and> (state g = PLAYING \<longrightarrow>
        state (pause g) = PAUSED \<and> score (pause g) = score g
        \<and> snake (pause g) = snake g \<and> food (pause g) = food g)
   \<and> (state g = PAUSED \<and> 0 < speed g \<longrightarrow>
        (\<exists>g'. resume cfg e g = Inr g' \<and> state g' = PLAYING \<and> score g' = score g
           \<and> snake g' = snake g \<and> food g' = food g))"
  by (simp add: pause_def resume_def stopGameLoop_def startGameLoop_def gameLoop_def Let_def)

theorem pause_resume_noop_witness:
  "pause (newGame gameConfig None) = newGame gameConfig None
   \<and> resume gameConfig \<lparr> now = 0, draws = (\<lambda>i. (0, 0)), specialRoll = 0, typeRoll = 0 \<rparr>
        (newGame gameConfig None) = Inr (newGame gameConfig None)
   \<and> state (newGame gameConfig None) = MENU"
  using pause_resume_noop [of "newGame gameConfig None" gameConfig
          "\<lparr> now = 0, draws = (\<lambda>i. (0, 0)), specialRoll = 0, typeRoll = 0 \<rparr>"]
  by (simp add: newGame_def)

section \<open>Properties of the food placement\<close>

lemma set_boardCells: "set (boardCells cfg) = {p. isValidPosition cfg p}"
proof -
  have "p \<in> set (boardCells cfg) \<longleftrightarrow> isValidPosition cfg p" for p
    by (cases p) (force simp: boardCells_def isValidPosition_def createPosition_def image_iff)
  then show ?thesis by blast
qed

lemma findAvailablePosition_full:
  "(\<forall>p. isValidPosition cfg p \<longrightarrow> isPositionOccupied s p) \<Longrightarrow>
   findAvailablePosition cfg t s f = (False, f)"
proof -
  assume a: "\<forall>p. isValidPosition cfg p \<longrightarrow> isPositionOccupied s p"
  have "find (\<lambda>p. \<not> isPositionOccupied s p) (boardCells cfg) = None"
    using a by (simp add: find_None_iff set_boardCells)
  then show ?thesis by (simp add: findAvailablePosition_def)
qed

lemma findAvailablePosition_free:
  assumes "isValidPosition cfg q" "\<not> isPositionOccupied s q"
  shows "\<exists>p. findAvailablePosition cfg t s f = (True, placeAt cfg t p f)
            \<and> isValidPosition cfg p \<and> \<not> isPositionOccupied s p"
proof -
  have "find (\<lambda>p. \<not> isPositionOccupied s p) (boardCells cfg) \<noteq> None"
    using assms by (auto simp: find_None_iff set_boardCells)
  then obtain p where p: "find (\<lambda>p. \<not> isPositionOccupied s p) (boardCells cfg) = Some p"
    by blast
  then have "p \<in> set (boardCells cfg)" "\<not> isPositionOccupied s p"
    by (auto simp: find_Some_iff)
  with p show ?thesis
    by (auto simp: findAvailablePosition_def set_boardCells)
qed

lemma generateLoop_cases:
  "generateLoop cfg t rnd s f k = findAvailablePosition cfg t s f \<and>
     (\<forall>i. k \<le> i \<and> i < maxAttempts \<longrightarrow> isPositionOccupied s (getRandomPosition cfg (rnd i)))
   \<or> (\<exists>i. k \<le> i \<and> i < maxAttempts \<and> \<not> isPositionOccupied s (getRandomPosition cfg (rnd i))
        \<and> generateLoop cfg t rnd s f k = (True, placeAt cfg t (getRandomPosition cfg (rnd i)) f))"
proof (induction cfg t rnd s f k rule: generateLoop.induct)
  case (1 cfg t rnd s f attempts)
  show ?case
  proof (cases "attempts < maxAttempts")
    case False
    then show ?thesis by (subst generateLoop.simps) auto
  next
    case lt: True
    show ?thesis
    proof (cases "isPositionOccupied s (getRandomPosition cfg (rnd attempts))")
      case False
      with lt show ?thesis
        by (subst (1 2) generateLoop.simps) auto
    next
      case occ: True
      have eq: "generateLoop cfg t rnd s f attempts = generateLoop cfg t rnd s f (attempts + 1)"
        using lt occ by (subst generateLoop.simps) simp
      from "1.IH" [OF lt] occ
      have IH: "generateLoop cfg t rnd s f (attempts + 1) = findAvailablePosition cfg t s f \<and>
                 (\<forall>i. attempts + 1 \<le> i \<and> i < maxAttempts \<longrightarrow> isPositionOccupied s (getRandomPosition cfg (rnd i)))
             \<or> (\<exists>i. attempts + 1 \<le> i \<and> i < maxAttempts \<and> \<not> isPositionOccupied s (getRandomPosition cfg (rnd i))
                  \<and> generateLoop cfg t rnd s f (attempts + 1) = (True, placeAt cfg t (getRandomPosition cfg (rnd i)) f))"
        by simp
      then show ?thesis
      proof
        assume h: "generateLoop cfg t rnd s f (attempts + 1) = findAvailablePosition cfg t s f \<and>
                 (\<forall>i. attempts + 1 \<le> i \<and> i < maxAttempts \<longrightarrow> isPositionOccupied s (getRandomPosition cfg (rnd i)))"
        have "\<forall>i. attempts \<le> i \<and> i < maxAttempts \<longrightarrow> isPositionOccupied s (getRandomPosition cfg (rnd i))"
        proof (intro allI impI)
          fix i assume "attempts \<le> i \<and> i < maxAttempts"
          then show "isPositionOccupied s (getRandomPosition cfg (rnd i))"
            using h occ by (cases "i = attempts") auto
        qed
        with h eq show ?thesis by simp
      next
        assume "\<exists>i. attempts + 1 \<le> i \<and> i < maxAttempts \<and> \<not> isPositionOccupied s (getRandomPosition cfg (rnd i))
                  \<and> generateLoop cfg t rnd s f (attempts + 1) = (True, placeAt cfg t (getRandomPosition cfg (rnd i)) f)"
        then obtain i where "attempts + 1 \<le> i" "i < maxAttempts"
            "\<not> isPositionOccupied s (getRandomPosition cfg (rnd i))"
            "generateLoop cfg t rnd s f (attempts + 1) = (True, placeAt cfg t (getRandomPosition cfg (rnd i)) f)"
          by blast
        with eq have "attempts \<le> i \<and> i < maxAttempts \<and> \<not> isPositionOccupied s (getRandomPosition cfg (rnd i))
                  \<and> generateLoop cfg t rnd s f attempts = (True, placeAt cfg t (getRandomPosition cfg (rnd i)) f)"
          by simp
        then show ?thesis by blast
      qed
    qed
  qed
qed









lemma placeAt_fields:
  "position (placeAt cfg t p f) = Some p" "active (placeAt cfg t p f)"
  "ftype (placeAt cfg t p f) = ''normal''" "value (placeAt cfg t p f) = food_points cfg"
  "color (placeAt cfg t p f) = food_color cfg" "fsize (placeAt cfg t p f) = food_size cfg"
  "specialFood (placeAt cfg t p f) = None" "spawnTime (placeAt cfg t p f) = t"
  by (simp_all add: placeAt_def resetToNormal_def)

lemma findAvailablePosition_result:
  "findAvailablePosition cfg t s f = (False, f) \<and> (\<forall>p. isValidPosition cfg p \<longrightarrow> isPositionOccupied s p)
   \<or> (\<exists>p. findAvailablePosition cfg t s f = (True, placeAt cfg t p f)
         \<and> isValidPosition cfg p \<and> \<not> isPositionOccupied s p)"
proof (cases "\<forall>p. isValidPosition cfg p \<longrightarrow> isPositionOccupied s p")
  case True
  with findAvailablePosition_full [OF True] show ?thesis by blast
next
  case False
  then obtain q where "isValidPosition cfg q" "\<not> isPositionOccupied s q" by blast
  from findAvailablePosition_free [OF this] show ?thesis by blast
qed

lemma generateNewPosition_result:
  "generateNewPosition cfg t rnd s f = (False, f)
   \<or> (\<exists>p. generateNewPosition cfg t rnd s f = (True, placeAt cfg t p f) \<and> \<not> isPositionOccupied s p)"
  unfolding generateNewPosition_def
  using generateLoop_cases [of cfg t rnd s f 0] findAvailablePosition_result [of cfg t s f]
  by metis




section \<open>Properties of the food variants\<close>

text \<open>
  C10. A successful placement, by a random attempt or by the scan, leaves the food active
  with type \<open>'normal'\<close>, the base points, the base colour, the base size and no
  effect; a failed placement leaves the food as it was, and consuming keeps the type.
  A normal food becomes special only in \<open>Food.update\<close>, through a successful
  \<open>checkForSpecialFood\<close>, which the tick runs after the placement.
\<close>

theorem placement_spawns_normal:
  "(fst (generateNewPosition cfg t rnd s f) \<longrightarrow>
      ftype (snd (generateNewPosition cfg t rnd s f)) = ''normal''
      \<and> value (snd (generateNewPosition cfg t rnd s f)) = food_points cfg
      \<and> color (snd (generateNewPosition cfg t rnd s f)) = food_color cfg
      \<and> fsize (snd (generateNewPosition cfg t rnd s f)) = food_size cfg
      \<and> specialFood (snd (generateNewPosition cfg t rnd s f)) = None
      \<and> active (snd (generateNewPosition cfg t rnd s f)))
   \<and> (fst (findAvailablePosition cfg t s f) \<longrightarrow>
      ftype (snd (findAvailablePosition cfg t s f)) = ''normal''
      \<and> value (snd (findAvailablePosition cfg t s f)) = food_points cfg
      \<and> color (snd (findAvailablePosition cfg t s f)) = food_color cfg
      \<and> fsize (snd (findAvailablePosition cfg t s f)) = food_size cfg
      \<and> specialFood (snd (findAvailablePosition cfg t s f)) = None
      \<and> active (snd (findAvailablePosition cfg t s f)))
   \<and> (\<not> fst (generateNewPosition cfg t rnd s f) \<longrightarrow> snd (generateNewPosition cfg t rnd s f) = f)
   \<and> ftype (snd (consume f)) = ftype f
   \<and> (ftype f = ''normal'' \<and> ftype (updateFood cfg t r1 r2 sc f) \<noteq> ''normal'' \<longrightarrow>
        active f \<and> r1 < specialChance sc
        \<and> fst (checkForSpecialFood cfg r1 r2 sc f)
        \<and> updateFood cfg t r1 r2 sc f = snd (checkForSpecialFood cfg r1 r2 sc f)
        \<and> ftype (updateFood cfg t r1 r2 sc f) \<in> {''bonus'', ''mega'', ''speed''})"
proof (intro conjI impI)
  assume "ftype f = ''normal'' \<and> ftype (updateFood cfg t r1 r2 sc f) \<noteq> ''normal''"
  then have n: "ftype f = ''normal''" and u: "ftype (updateFood cfg t r1 r2 sc f) \<noteq> ''normal''"
    by simp_all
  from n have ne: "\<not> hasExpired t f" by (simp add: hasExpired_def)
  from n u show "active f" by (cases "active f") (simp_all add: updateFood_def)
  with ne have eq: "updateFood cfg t r1 r2 sc f = snd (checkForSpecialFood cfg r1 r2 sc f)"
    by (simp add: updateFood_def)
  then show "updateFood cfg t r1 r2 sc f = snd (checkForSpecialFood cfg r1 r2 sc f)" .
  from eq n u show r: "r1 < specialChance sc"
    by (auto simp: checkForSpecialFood_def split: if_splits)
  with n show "fst (checkForSpecialFood cfg r1 r2 sc f)"
    by (simp add: checkForSpecialFood_def Let_def)
  have types: "set specialTypes = {''bonus'', ''mega'', ''speed''}"
    by (auto simp: specialTypes_def)
  define ty where "ty = (let i = \<lfloor>r2 * of_nat (length specialTypes)\<rfloor> in
      if 0 \<le> i \<and> i < int (length specialTypes) then specialTypes ! nat i else ''bonus'')"
  have mem: "ty \<in> {''bonus'', ''mega'', ''speed''}"
  proof (cases "0 \<le> \<lfloor>r2 * of_nat (length specialTypes)\<rfloor>
        \<and> \<lfloor>r2 * of_nat (length specialTypes)\<rfloor> < int (length specialTypes)")
    case True
    then have "nat \<lfloor>r2 * of_nat (length specialTypes)\<rfloor> < length specialTypes" by linarith
    then have "specialTypes ! nat \<lfloor>r2 * of_nat (length specialTypes)\<rfloor> \<in> set specialTypes"
      by (rule nth_mem)
    moreover from True have "ty = specialTypes ! nat \<lfloor>r2 * of_nat (length specialTypes)\<rfloor>"
      unfolding ty_def Let_def by (rule if_P)
    ultimately show ?thesis using types by simp
  next
    case False
    then have "ty = ''bonus''" unfolding ty_def Let_def by (rule if_not_P)
    then show ?thesis by simp
  qed
  have "snd (checkForSpecialFood cfg r1 r2 sc f) = makeSpecial cfg ty f"
    using n r unfolding checkForSpecialFood_def ty_def Let_def by simp
  with eq have "ftype (updateFood cfg t r1 r2 sc f) = ftype (makeSpecial cfg ty f)" by simp
  also have "\<dots> = ty" by (simp add: makeSpecial_def resetToNormal_def Let_def) (use mem in auto)
  finally show "ftype (updateFood cfg t r1 r2 sc f) \<in> {''bonus'', ''mega'', ''speed''}"
    using mem by simp
qed (use generateNewPosition_result [of cfg t rnd s f] findAvailablePosition_result [of cfg t s f]
     in \<open>auto simp: placeAt_fields consume_def\<close>)

theorem placement_spawns_normal_witness:
  "ftype bonusFood = ''bonus'' \<and> value bonusFood = 20
   \<and> generateNewPosition gameConfig 7 centreDraws (reset gameConfig) bonusFood
       = (True, placeAt gameConfig 7 \<lparr>x = 0, y = 0\<rparr> bonusFood)
   \<and> ftype (snd (generateNewPosition gameConfig 7 centreDraws (reset gameConfig) bonusFood)) = ''normal''
   \<and> value (snd (generateNewPosition gameConfig 7 centreDraws (reset gameConfig) bonusFood)) = 10"
proof -
  have a: "ftype bonusFood = ''bonus''" "value bonusFood = 20"
    by (simp_all add: bonusFood_def makeSpecial_def newFood_def gameConfig_def)
  have b: "generateNewPosition gameConfig 7 centreDraws (reset gameConfig) bonusFood
       = (True, placeAt gameConfig 7 \<lparr>x = 0, y = 0\<rparr> bonusFood)"
    by code_simp
  from b placement_spawns_normal [of gameConfig 7 centreDraws "reset gameConfig" bonusFood]
  have "ftype (snd (generateNewPosition gameConfig 7 centreDraws (reset gameConfig) bonusFood)) = ''normal''"
       "value (snd (generateNewPosition gameConfig 7 centreDraws (reset gameConfig) bonusFood)) = food_points gameConfig"
    by simp_all
  with a b show ?thesis by (simp add: gameConfig_def)
qed

section \<open>Properties of a tick\<close>

lemma gameOver_fields:
  "state (gameOver e g) = GAME_OVER" "score (gameOver e g) = score g"
  "snake (gameOver e g) = snake g" "food (gameOver e g) = food g"
  by (simp_all add: gameOver_def stopGameLoop_def setHighScore_def Let_def)

lemma handleSpecialEffect_fields:
  "state (handleSpecialEffect e eff g) = state g" "score (handleSpecialEffect e eff g) = score g"
  "snake (handleSpecialEffect e eff g) = snake g" "food (handleSpecialEffect e eff g) = food g"
  "paused (handleSpecialEffect e eff g) = paused g"
  by (simp_all add: handleSpecialEffect_def)

lemma handleFoodCollision_fields:
  "state (handleFoodCollision cfg e fc g) = state g"
  "paused (handleFoodCollision cfg e fc g) = paused g"
  "score (handleFoodCollision cfg e fc g) = score g + fst (consume (food g))"
  "snake (handleFoodCollision cfg e fc g) = grow (snake g)"
  by (simp_all add: handleFoodCollision_def handleSpecialEffect_fields Let_def split: option.splits)

lemma selfLoop_detected:
  "detected (selfLoop h bs i c) \<longleftrightarrow> detected c \<or> h \<in> set bs"
  by (induction h bs i c rule: selfLoop.induct) (auto simp: positionsEqual_iff)

lemma checkSelfCollision_detected:
  "detected (checkSelfCollision s h) \<longleftrightarrow> h \<in> set (tl (body s))"
  by (simp add: checkSelfCollision_def selfLoop_detected getBodyWithoutHead_def)



lemma checkFoodCollision_points:
  "detected (checkFoodCollision s h f) \<Longrightarrow>
   points (checkFoodCollision s h f) = value f \<and> specialEffect (checkFoodCollision s h f) = specialFood f"
  by (auto simp: checkFoodCollision_def Let_def split: if_splits)

lemma checkAllCollisions_Inr:
  assumes "checkAllCollisions cfg s f = Inr c"
  obtains h where "getHead s = Some h" "body s \<noteq> []" "h = hd (body s)"
    "c_food c = checkFoodCollision s h f"
    "c_self c = checkSelfCollision s h"
    "c_boundary c = checkBoundaryCollision cfg h"
    "gameEnding c \<longleftrightarrow> detected (checkBoundaryCollision cfg h) \<or> detected (checkSelfCollision s h)"
  using assms
  by (cases "body s") (auto simp: checkAllCollisions_def getHead_def Let_def)

lemma move_Inr:
  assumes "move s = Inr s'"
  shows "body s \<noteq> []"
    and "body s' = createPosition (x (hd (body s)) + dir_x (nextDirection s))
                                  (y (hd (body s)) + dir_y (nextDirection s))
                # (if growing s then body s else butlast (body s))"
    and "direction s' = nextDirection s" and "nextDirection s' = nextDirection s"
    and "\<not> growing s'"
  using assms
  by (cases "body s"; auto simp: move_def getHead_def Let_def split: if_splits)+

lemma tickCollisions_Inr:
  assumes "tickCollisions cfg g = Inr c"
  obtains s1 where "move (snake g) = Inr s1" "checkAllCollisions cfg s1 (food g) = Inr c"
  using assms by (auto simp: tickCollisions_def split: sum.splits)

lemma update_playing:
  assumes "state g = PLAYING" "\<not> paused g" "move (snake g) = Inr s1"
    "checkAllCollisions cfg s1 (food g) = Inr c"
  shows "update cfg e g =
     (let g2 = (if detected (c_food c) then handleFoodCollision cfg e (c_food c) (g\<lparr> snake := s1 \<rparr>)
                else g\<lparr> snake := s1 \<rparr>)
      in if gameEnding c then Inr (gameOver e g2)
         else Inr (updateGameSpeed cfg
                (g2\<lparr> food := updateFood cfg (now e) (specialRoll e) (typeRoll e) (score g2) (food g2) \<rparr>)))"
  using assms by (simp add: update_def Let_def)

section \<open>Properties of the speed boost\<close>

lemma tick_speed_is_formula:
  assumes "state g = PLAYING" and "\<not> paused g" and "tickCollisions cfg g = Inr c"
    and "\<not> gameEnding c"
  shows "\<exists>g'. update cfg e g = Inr g'
           \<and> speed g' = max 75 (snake_speed cfg - (score g' div 100) * 5)
           \<and> speed g' = speed (updateGameSpeed cfg g')"
proof -
  from assms(3) obtain s1 where m: "move (snake g) = Inr s1"
    and ca: "checkAllCollisions cfg s1 (food g) = Inr c"
    by (rule tickCollisions_Inr)
  from update_playing [OF assms(1,2) m ca, of e] assms(4) show ?thesis
    by (simp add: Let_def updateGameSpeed_def)
qed

text \<open>
  C2. The claim is that consuming a speed food lowers the interval below the value of the
  score formula for the duration of the effect, and that the interval then returns to
  the value the formula gives for the score at that time. Evaluated on \<open>boostRun\<close>: the
  speed food is eaten at 90 points with the interval 150 and the score becomes 100. At
  the end of that same tick the interval is 145, the value of the formula, not below it:
  \<open>updateGameSpeed\<close> has replaced the lowered interval. When the 5000 ms have passed
  the reversion assigns 150, the interval captured at consumption, where the formula
  gives 145 for the 100 points held then.
\<close>

theorem speed_boost_never_governs_a_tick:
  "score boostGame = 90 \<and> speed boostGame = 150
   \<and> specialFood (food boostGame) = Some \<lparr> effect_type = ''speed'', duration = 5000 \<rparr>
   \<and> map_sum id score (run gameConfig (take 1 boostRun) boostGame) = Inr 100
   \<and> map_sum id timeouts (run gameConfig (take 1 boostRun) boostGame)
       = Inr [\<lparr> due = 11000, originalSpeed = 150 \<rparr>]
   \<and> map_sum id speed (run gameConfig (take 1 boostRun) boostGame) = Inr 145
   \<and> map_sum id (speed \<circ> updateGameSpeed gameConfig) (run gameConfig (take 1 boostRun) boostGame)
       = Inr 145
   \<and> map_sum id score (run gameConfig boostRun boostGame) = Inr 100
   \<and> map_sum id timeouts (run gameConfig boostRun boostGame) = Inr []
   \<and> map_sum id speed (run gameConfig boostRun boostGame) = Inr 150
   \<and> map_sum id (speed \<circ> updateGameSpeed gameConfig) (run gameConfig boostRun boostGame) = Inr 145"
  by code_simp

section \<open>Properties of reachable sessions\<close>

lemma reset_distinct: "distinct (body (reset cfg))"
proof -
  have "inj_on (\<lambda>i. createPosition (c - int i) r) A" for c r A
    by (rule inj_onI) (simp add: createPosition_def)
  then show ?thesis
    by (simp add: reset_def Let_def distinct_map)
qed

lemma move_distinct:
  assumes "distinct (body s)" and "move s = Inr s'"
  shows "distinct (body s') \<longleftrightarrow> hd (body s') \<notin> set (tl (body s'))"
proof -
  let ?rest = "if growing s then body s else butlast (body s)"
  from assms(1) have "distinct ?rest" by (simp add: distinct_butlast)
  with move_Inr(2) [OF assms(2)] show ?thesis by simp
qed

lemma update_aliveDistinct:
  assumes "aliveDistinct g" and "update cfg e g = Inr g'"
  shows "aliveDistinct g'"
proof (cases "state g = PLAYING \<and> \<not> paused g")
  case False
  with assms show ?thesis by (auto simp: update_def)
next
  case True
  then have pl: "state g = PLAYING" "\<not> paused g" by simp_all
  from assms(2) True obtain s1 where m: "move (snake g) = Inr s1"
    by (cases "move (snake g)") (auto simp: update_def)
  from assms(2) True m obtain c where ca: "checkAllCollisions cfg s1 (food g) = Inr c"
    by (cases "checkAllCollisions cfg s1 (food g)") (auto simp: update_def Let_def)
  define g2 where "g2 = (if detected (c_food c)
      then handleFoodCollision cfg e (c_food c) (g\<lparr> snake := s1 \<rparr>) else g\<lparr> snake := s1 \<rparr>)"
  have b2: "body (snake g2) = body s1"
    by (simp add: g2_def handleFoodCollision_fields grow_def)
  from update_playing [OF pl m ca, of e]
  have "update cfg e g = (if gameEnding c then Inr (gameOver e g2)
         else Inr (updateGameSpeed cfg
                (g2\<lparr> food := updateFood cfg (now e) (specialRoll e) (typeRoll e) (score g2) (food g2) \<rparr>)))"
    unfolding Let_def g2_def .
  note u = this
  show ?thesis
  proof (cases "gameEnding c")
    case True
    with u assms(2) have "g' = gameOver e g2" by simp
    then show ?thesis by (simp add: aliveDistinct_def gameOver_fields)
  next
    case False
    with u assms(2) have "g' = updateGameSpeed cfg
                (g2\<lparr> food := updateFood cfg (now e) (specialRoll e) (typeRoll e) (score g2) (food g2) \<rparr>)"
      by simp
    then have "body (snake g') = body s1"
      by (simp add: updateGameSpeed_def Let_def b2)
    moreover from ca obtain h where "h = hd (body s1)"
      "gameEnding c \<longleftrightarrow> detected (checkBoundaryCollision cfg h) \<or> detected (checkSelfCollision s1 h)"
      by (rule checkAllCollisions_Inr)
    with False have "hd (body s1) \<notin> set (tl (body s1))"
      by (simp add: checkSelfCollision_detected)
    moreover from assms(1) pl have "distinct (body (snake g))"
      by (simp add: aliveDistinct_def)
    ultimately show ?thesis
      using move_distinct [OF _ m] by (simp add: aliveDistinct_def)
  qed
qed

lemma gameLoop_aliveDistinct:
  assumes "aliveDistinct g" and "gameLoop cfg e g = Inr g'"
  shows "aliveDistinct g'"
proof (cases "now e - lastUpdateTime g \<ge> speed g")
  case False
  with assms show ?thesis
    by (auto simp: gameLoop_def Let_def aliveDistinct_def split: if_splits)
next
  case True
  with assms(2) obtain g1 where u: "update cfg e g = Inr g1"
    by (cases "update cfg e g") (auto simp: gameLoop_def Let_def)
  from update_aliveDistinct [OF assms(1) u] have "aliveDistinct g1" .
  with assms(2) True u show ?thesis
    by (auto simp: gameLoop_def Let_def aliveDistinct_def split: if_splits)
qed

lemma startGameLoop_aliveDistinct:
  assumes "aliveDistinct g" and "startGameLoop cfg e g = Inr g'"
  shows "aliveDistinct g'"
proof -
  from assms(1) have "aliveDistinct ((if gameLoopId g then stopGameLoop g else g)\<lparr> lastUpdateTime := now e \<rparr>)"
    by (simp add: aliveDistinct_def stopGameLoop_def)
  with assms(2) show ?thesis
    unfolding startGameLoop_def by (rule gameLoop_aliveDistinct [rotated])
qed

lemma start_aliveDistinct:
  assumes "start cfg e g = Inr g'"
  shows "aliveDistinct g'"
proof -
  let ?g0 = "(resetGame cfg g)\<lparr> state := PLAYING, gameStartTime := now e \<rparr>"
  from assms obtain g1 where s: "startGameLoop cfg e ?g0 = Inr g1"
    and g': "g' = g1\<lparr> food := snd (generateNewPosition cfg (now e) (draws e) (snake g1) (food g1)) \<rparr>"
    by (cases "startGameLoop cfg e ?g0") (auto simp: start_def)
  have "aliveDistinct ?g0"
    by (simp add: aliveDistinct_def resetGame_def reset_distinct)
  from startGameLoop_aliveDistinct [OF this s] g' show ?thesis
    by (simp add: aliveDistinct_def)
qed

lemma step_aliveDistinct:
  assumes "aliveDistinct g" and "step cfg ev e g = Inr g'"
  shows "aliveDistinct g'"
proof (cases ev)
  case Start
  with assms(2) show ?thesis by (simp add: step_def start_aliveDistinct)
next
  case TogglePause
  with assms show ?thesis
    by (auto simp: step_def togglePause_def pause_def resume_def stopGameLoop_def aliveDistinct_def
        split: if_splits
        dest!: startGameLoop_aliveDistinct [rotated, where g = "g\<lparr>state := PLAYING, paused := False\<rparr>"])
next
  case Pause
  with assms show ?thesis
    by (auto simp: step_def pause_def stopGameLoop_def aliveDistinct_def split: if_splits)
next
  case Resume
  with assms show ?thesis
    by (auto simp: step_def resume_def aliveDistinct_def split: if_splits
        dest!: startGameLoop_aliveDistinct [rotated, where g = "g\<lparr>state := PLAYING, paused := False\<rparr>"])
next
  case Restart
  with assms(2) show ?thesis by (simp add: step_def restart_def start_aliveDistinct)
next
  case (ChangeDirection d)
  with assms show ?thesis
    by (auto simp: step_def game_changeDirection_def changeDirection_def aliveDistinct_def
        split: if_splits)
next
  case Frame
  with assms show ?thesis
    by (auto simp: step_def split: if_splits dest: gameLoop_aliveDistinct)
next
  case Timeout
  with assms show ?thesis
    by (auto simp: step_def fireTimeout_def aliveDistinct_def split: list.splits if_splits)
qed

lemma run_aliveDistinct:
  "aliveDistinct g \<Longrightarrow> run cfg evs g = Inr g' \<Longrightarrow> aliveDistinct g'"
proof (induction evs arbitrary: g)
  case Nil
  then show ?case by simp
next
  case (Cons a evs)
  obtain ev e where a: "a = (ev, e)" by (cases a)
  with Cons.prems(2) obtain g1 where s: "step cfg ev e g = Inr g1" and r: "run cfg evs g1 = Inr g'"
    by (cases "step cfg ev e g") auto
  from step_aliveDistinct [OF Cons.prems(1) s] have "aliveDistinct g1" .
  from Cons.IH [OF this r] show ?case .
qed

lemma newGame_aliveDistinct: "aliveDistinct (newGame cfg stored)"
  by (simp add: aliveDistinct_def newGame_def reset_distinct)

text \<open>
  C3, as the code has it. In every state that a session reaches from a new game without
  an exception, the body of the snake has no duplicate cell unless the game is over. A
  completed move from a duplicate-free body leaves a duplicate-free body exactly when the
  self-collision check of the moved snake detects nothing: the lethal move itself puts
  the head on another segment, and the check finds it there.
\<close>

theorem body_distinct_while_alive:
  "(run cfg evs (newGame cfg stored) = Inr g \<and> state g \<noteq> GAME_OVER \<longrightarrow> distinct (body (snake g)))
   \<and> (distinct (body s) \<and> move s = Inr s' \<longrightarrow>
        (distinct (body s') \<longleftrightarrow> \<not> detected (checkSelfCollision s' (hd (body s')))))"
proof (intro conjI impI)
  assume "run cfg evs (newGame cfg stored) = Inr g \<and> state g \<noteq> GAME_OVER"
  with run_aliveDistinct [OF newGame_aliveDistinct]
  have "aliveDistinct g" by blast
  with \<open>run cfg evs (newGame cfg stored) = Inr g \<and> state g \<noteq> GAME_OVER\<close>
  show "distinct (body (snake g))" by (simp add: aliveDistinct_def)
next
  assume "distinct (body s) \<and> move s = Inr s'"
  then show "distinct (body s') \<longleftrightarrow> \<not> detected (checkSelfCollision s' (hd (body s')))"
    using move_distinct [of s s'] by (simp add: checkSelfCollision_detected)
qed

theorem body_distinct_while_alive_witness:
  "map_sum id state (run gameConfig (take 9 coilRun) (newGame gameConfig None)) = Inr PLAYING
   \<and> map_sum id (distinct \<circ> body \<circ> snake) (run gameConfig (take 9 coilRun) (newGame gameConfig None))
       = Inr True
   \<and> map_sum id (length \<circ> body \<circ> snake) (run gameConfig (take 9 coilRun) (newGame gameConfig None))
       = Inr 5"
proof -
  have st: "map_sum id state (run gameConfig (take 9 coilRun) (newGame gameConfig None)) = Inr PLAYING"
    by code_simp
  have len: "map_sum id (length \<circ> body \<circ> snake) (run gameConfig (take 9 coilRun) (newGame gameConfig None))
       = Inr 5"
    by code_simp
  from st obtain g where g: "run gameConfig (take 9 coilRun) (newGame gameConfig None) = Inr g"
    by (cases "run gameConfig (take 9 coilRun) (newGame gameConfig None)") auto
  with st have "state g \<noteq> GAME_OVER" by simp
  with g body_distinct_while_alive [of gameConfig "take 9 coilRun" None g]
  have "distinct (body (snake g))" by blast
  with g st len show ?thesis by simp
qed

text \<open>
  The claim that the body is duplicate-free after every completed move fails on
  \<open>coilRun\<close>: after nine events the game is playing with five distinct segments, and
  the move of the tenth puts the head on the cell \<open>(17, 15)\<close> of the fifth segment; the
  game is over with that body.
\<close>

theorem body_distinct_after_every_move_counterexample:
  "map_sum id state (run gameConfig (take 9 coilRun) (newGame gameConfig None)) = Inr PLAYING
   \<and> map_sum id (body \<circ> snake) (run gameConfig (take 9 coilRun) (newGame gameConfig None))
       = Inr [\<lparr>x = 17, y = 16\<rparr>, \<lparr>x = 18, y = 16\<rparr>, \<lparr>x = 18, y = 15\<rparr>, \<lparr>x = 17, y = 15\<rparr>,
              \<lparr>x = 16, y = 15\<rparr>]
   \<and> map_sum id (body \<circ> snake) (run gameConfig coilRun (newGame gameConfig None))
       = Inr [\<lparr>x = 17, y = 15\<rparr>, \<lparr>x = 17, y = 16\<rparr>, \<lparr>x = 18, y = 16\<rparr>, \<lparr>x = 18, y = 15\<rparr>,
              \<lparr>x = 17, y = 15\<rparr>]
   \<and> map_sum id (distinct \<circ> body \<circ> snake) (run gameConfig coilRun (newGame gameConfig None))
       = Inr False
   \<and> map_sum id state (run gameConfig coilRun (newGame gameConfig None)) = Inr GAME_OVER"
  by code_simp

section \<open>Lethal ticks\<close>














end
